theory Spec2Isabelle
  imports Main "HOL-Library.AList"
begin

section \<open>Values, dictionaries and exceptions\<close>

text \<open>
  The values that travel through \<^verbatim>\<open>database.py\<close>: the scalars of a result row or of a
  query argument (\<^verbatim>\<open>None\<close>, booleans, integers, strings), lists, and dictionaries with
  string keys (a keyword-argument mapping, a decoded row). Strings are lists of
  characters; the characters are ASCII.
\<close>

datatype pyval =
    VNone
  | VBool bool
  | VInt int
  | VStr string
  | VList "pyval list"
  | VDict "(string \<times> pyval) list"

text \<open>
  A Python \<^verbatim>\<open>dict\<close> with string keys is an association list in insertion order.
  \<^verbatim>\<open>d[k] = v\<close> is \<^const>\<open>AList.update\<close>: the value of a key that is present is
  replaced where it stands, a new key is appended. \<^verbatim>\<open>d[k]\<close> is \<^const>\<open>map_of\<close>,
  and raises \<^verbatim>\<open>KeyError\<close> where \<^const>\<open>map_of\<close> gives \<^const>\<open>None\<close>.
\<close>

type_synonym pydict = "(string \<times> pyval) list"

datatype error =
    KeyError string
  | TypeError string
  | ValueError string
  | RuntimeError string
  | IndexError string
  | AttributeError string
  | DatabaseError string
  | NotModelled string

text \<open>
  \<^verbatim>\<open>d.update(kwargs)\<close> stores the entries of \<^verbatim>\<open>kwargs\<close> one after the other.
\<close>

definition dict_update :: "('k \<times> 'v) list \<Rightarrow> ('k \<times> 'v) list \<Rightarrow> ('k \<times> 'v) list" where
  "dict_update d kwargs = fold (\<lambda>kv. AList.update (fst kv) (snd kv)) kwargs d"

subsection \<open>Printable representations\<close>

definition quote :: char where
  "quote = CHR 0x27"

definition dquote :: char where
  "dquote = CHR 0x22"

definition backslash :: char where
  "backslash = CHR 0x5C"

definition hex_digit :: "nat \<Rightarrow> char" where
  "hex_digit n = ''0123456789abcdef'' ! (n mod 16)"

text \<open>
  \<^verbatim>\<open>repr\<close> of a string: it is enclosed in single quotes, or in double quotes when it
  holds a single quote and no double quote; the enclosing quote and the backslash are
  escaped, and so is every character that is not printable ASCII.
\<close>

definition repr_char :: "char \<Rightarrow> char \<Rightarrow> string" where
  "repr_char q c =
     (if c = q \<or> c = backslash then [backslash, c]
      else if c = CHR 0x09 then [backslash, CHR ''t'']
      else if c = CHR 0x0A then [backslash, CHR ''n'']
      else if c = CHR 0x0D then [backslash, CHR ''r'']
      else if (of_char c :: nat) < 32 \<or> 127 \<le> (of_char c :: nat)
        then [backslash, CHR ''x'', hex_digit (of_char c div 16), hex_digit (of_char c)]
      else [c])"

definition str_repr :: "string \<Rightarrow> string" where
  "str_repr s =
     (let q = (if quote \<in> set s \<and> dquote \<notin> set s then dquote else quote)
      in q # concat (map (repr_char q) s) @ [q])"

fun nat_repr :: "nat \<Rightarrow> string" where
  "nat_repr n =
     (if n < 10 then [hex_digit n] else nat_repr (n div 10) @ [hex_digit (n mod 10)])"

declare nat_repr.simps [simp del]

definition int_repr :: "int \<Rightarrow> string" where
  "int_repr i = (if i < 0 then CHR ''-'' # nat_repr (nat (- i)) else nat_repr (nat i))"

fun join :: "string \<Rightarrow> string list \<Rightarrow> string" where
  "join sep [] = []"
| "join sep [x] = x"
| "join sep (x # y # ys) = x @ sep @ join sep (y # ys)"

fun repr :: "pyval \<Rightarrow> string" where
  "repr VNone = ''None''"
| "repr (VBool b) = (if b then ''True'' else ''False'')"
| "repr (VInt i) = int_repr i"
| "repr (VStr s) = str_repr s"
| "repr (VList xs) = ''['' @ join '', '' (map repr xs) @ '']''"
| "repr (VDict kvs) =
     ''{'' @ join '', '' (map (\<lambda>kv. str_repr (fst kv) @ '': '' @ repr (snd kv)) kvs) @ ''}''"

text \<open>
  \<^verbatim>\<open>str\<close> of a value: a string is itself, every other value prints as its
  \<^verbatim>\<open>repr\<close>.
\<close>

fun str :: "pyval \<Rightarrow> string" where
  "str (VStr s) = s"
| "str v = repr v"

subsection \<open>The string formatting operator\<close>

text \<open>
  \<^verbatim>\<open>template % operand\<close> for an operand that is not a tuple (the model has no tuples).
  A list or a dictionary operand counts as a mapping: \<^verbatim>\<open>%(key)s\<close> subscripts it with
  the key, and a plain \<^verbatim>\<open>%s\<close> consumes the operand as a whole, once. The conversions
  modelled are \<^verbatim>\<open>%s\<close>, \<^verbatim>\<open>%r\<close> and \<^verbatim>\<open>%%\<close>; flags, widths and the numeric
  conversions end in \<^const>\<open>NotModelled\<close>.
\<close>

fun is_mapping :: "pyval \<Rightarrow> bool" where
  "is_mapping (VList xs) = True"
| "is_mapping (VDict d) = True"
| "is_mapping v = False"

fun getitem :: "pyval \<Rightarrow> string \<Rightarrow> error + pyval" where
  "getitem (VDict d) key =
     (case map_of d key of None \<Rightarrow> Inl (KeyError key) | Some v \<Rightarrow> Inr v)"
| "getitem (VList xs) key =
     Inl (TypeError ''list indices must be integers or slices, not str'')"
| "getitem v key = Inl (TypeError ''format requires a mapping'')"

definition emit :: "string \<Rightarrow> error + string \<Rightarrow> error + string" where
  "emit s r = (case r of Inl e \<Rightarrow> Inl e | Inr t \<Rightarrow> Inr (s @ t))"

text \<open>
  One conversion character applied to the current argument: the text it writes and
  whether the argument is used up afterwards.
\<close>

definition convert :: "char \<Rightarrow> pyval \<Rightarrow> bool \<Rightarrow> error + (string \<times> bool)" where
  "convert c cur used =
     (if c = CHR ''%'' then Inr (''%'', used)
      else if c = CHR ''s'' then
        (if used then Inl (TypeError ''not enough arguments for format string'')
         else Inr (str cur, True))
      else if c = CHR ''r'' then
        (if used then Inl (TypeError ''not enough arguments for format string'')
         else Inr (repr cur, True))
      else Inl (NotModelled ''format conversion''))"

datatype fstate = Text | Percent | Key nat string | Conv

text \<open>
  The scan of the template, one character at a time. \<open>operand\<close> is the right operand
  of \<^verbatim>\<open>%\<close>, \<open>cur\<close> the argument the next conversion takes (the operand itself, or
  the value found under the last key) and \<open>used\<close> tells whether it is consumed.
  \<^term>\<open>Key n k\<close> is the state inside \<^verbatim>\<open>%(...)\<close>, with \<open>n\<close> open parentheses and the
  key read so far, reversed.
\<close>

fun format_chars :: "pyval \<Rightarrow> fstate \<Rightarrow> pyval \<Rightarrow> bool \<Rightarrow> string \<Rightarrow> error + string" where
  "format_chars operand st cur used [] =
     (case st of
        Text \<Rightarrow>
          (if \<not> used \<and> \<not> is_mapping operand
           then Inl (TypeError ''not all arguments converted during string formatting'')
           else Inr [])
      | Key n k \<Rightarrow> Inl (ValueError ''incomplete format key'')
      | Percent \<Rightarrow> Inl (ValueError ''incomplete format'')
      | Conv \<Rightarrow> Inl (ValueError ''incomplete format''))"
| "format_chars operand Text cur used (c # cs) =
     (if c = CHR ''%'' then format_chars operand Percent cur used cs
      else emit [c] (format_chars operand Text cur used cs))"
| "format_chars operand Percent cur used (c # cs) =
     (if c = CHR ''('' then
        (if is_mapping operand then format_chars operand (Key 1 []) cur used cs
         else Inl (TypeError ''format requires a mapping''))
      else
        (case convert c cur used of
           Inl e \<Rightarrow> Inl e
         | Inr (s, used') \<Rightarrow> emit s (format_chars operand Text cur used' cs)))"
| "format_chars operand (Key n k) cur used (c # cs) =
     (if c = CHR '')'' then
        (if n = 1 then
           (case getitem operand (rev k) of
              Inl e \<Rightarrow> Inl e
            | Inr v \<Rightarrow> format_chars operand Conv v False cs)
         else format_chars operand (Key (n - 1) (c # k)) cur used cs)
      else if c = CHR ''('' then format_chars operand (Key (n + 1) (c # k)) cur used cs
      else format_chars operand (Key n (c # k)) cur used cs)"
| "format_chars operand Conv cur used (c # cs) =
     (case convert c cur used of
        Inl e \<Rightarrow> Inl e
      | Inr (s, used') \<Rightarrow> emit s (format_chars operand Text cur used' cs))"

definition format_mod :: "string \<Rightarrow> pyval \<Rightarrow> error + string" where
  "format_mod template operand = format_chars operand Text operand False template"

subsection \<open>Keyword arguments of a call\<close>

text \<open>
  A call \<^verbatim>\<open>f(a, b, **kwargs)\<close> of a function \<^verbatim>\<open>def f(p, q, **kwargs)\<close> fills the
  parameters \<^verbatim>\<open>p\<close> and \<^verbatim>\<open>q\<close> by position. A keyword of the call that has the name
  of a parameter filled already raises \<^verbatim>\<open>TypeError\<close> before the body runs; the
  keywords are taken in their order and the first such keyword is reported (in the
  wording of Python 3.10 and later). Every other keyword goes to \<^verbatim>\<open>kwargs\<close>.
\<close>

definition bind_keywords :: "string \<Rightarrow> string list \<Rightarrow> pydict \<Rightarrow> error + unit" where
  "bind_keywords fname params kwargs =
     (case find (\<lambda>kv. fst kv \<in> set params) kwargs of
        Some kv \<Rightarrow>
          Inl (TypeError (fname @ ''() got multiple values for argument '' @ str_repr (fst kv)))
      | None \<Rightarrow> Inr ())"

section \<open>Query\<close>

text \<open>
  \<^verbatim>\<open>class Query\<close>: the template and the arguments. \<^verbatim>\<open>args\<close> is the sequence of
  positional arguments, or the one-element list holding the keyword mapping.
\<close>

record Query =
  query_string :: string
  args :: "pyval list"

text \<open>
  \<^verbatim>\<open>Query.__init__(self, query_string, *args, **kwargs)\<close>, called as
  \<^verbatim>\<open>Query(qs, *args, **kwargs)\<close> with the template in the first position, as every call
  in the repository is. A named argument called \<^verbatim>\<open>self\<close> or \<^verbatim>\<open>query_string\<close>
  collides with a parameter. A tuple and a dictionary are true when they are not empty.
\<close>

definition Query_init :: "string \<Rightarrow> pyval list \<Rightarrow> pydict \<Rightarrow> error + Query" where
  "Query_init qs args' kwargs =
     (case bind_keywords ''Query.__init__'' [''self'', ''query_string''] kwargs of
        Inl e \<Rightarrow> Inl e
      | Inr u \<Rightarrow>
          (if args' \<noteq> [] \<and> kwargs \<noteq> []
           then Inl (ValueError (''Both named and unnamed arguments passed to query: '' @ qs))
           else Inr \<lparr>query_string = qs,
                     args = (if kwargs \<noteq> [] then [VDict kwargs] else args')\<rparr>))"

text \<open>
  \<^verbatim>\<open>Query.__repr__\<close>. With exactly one argument that is a dictionary, the operand of
  \<^verbatim>\<open>%\<close> is the dictionary of the values' representations; otherwise it is the
  \<^emph>\<open>list\<close> of the arguments' representations (a list comprehension, not a tuple).
\<close>

definition Query_repr :: "Query \<Rightarrow> error + string" where
  "Query_repr q =
     (case args q of
        [VDict d] \<Rightarrow>
          format_mod (query_string q) (VDict (map (\<lambda>kv. (fst kv, VStr (repr (snd kv)))) d))
      | _ \<Rightarrow>
          format_mod (query_string q) (VList (map (\<lambda>v. VStr (repr v)) (args q))))"

section \<open>Object: the base class of the models\<close>

text \<open>
  The key of a dictionary is looked up by hash and \<^verbatim>\<open>==\<close>. A \<open>hkey\<close> is the class
  of a hashable scalar under \<^verbatim>\<open>==\<close>: \<^verbatim>\<open>True == 1\<close> and \<^verbatim>\<open>False == 0\<close>, and
  nothing else is equal across the kinds. Hashing a list or a dictionary raises
  \<^verbatim>\<open>TypeError\<close>; a tuple is hashed element by element.
\<close>

datatype hkey = KNone | KInt int | KStr string

fun hash_value :: "pyval \<Rightarrow> error + hkey" where
  "hash_value VNone = Inr KNone"
| "hash_value (VBool b) = Inr (KInt (if b then 1 else 0))"
| "hash_value (VInt i) = Inr (KInt i)"
| "hash_value (VStr s) = Inr (KStr s)"
| "hash_value (VList xs) = Inl (TypeError (''unhashable type: '' @ str_repr ''list''))"
| "hash_value (VDict d) = Inl (TypeError (''unhashable type: '' @ str_repr ''dict''))"

fun hash_tuple :: "pyval list \<Rightarrow> error + hkey list" where
  "hash_tuple [] = Inr []"
| "hash_tuple (v # vs) =
     (case hash_value v of
        Inl e \<Rightarrow> Inl e
      | Inr k \<Rightarrow> (case hash_tuple vs of Inl e \<Rightarrow> Inl e | Inr ks \<Rightarrow> Inr (k # ks)))"

text \<open>
  Instances live in a heap and are known by their address, so that two references are
  the same instance exactly when the addresses are equal. An instance is its
  \<^verbatim>\<open>__dict__\<close>. A world holds one model type, a direct subclass of \<^verbatim>\<open>Object\<close>: its
  class attributes \<^verbatim>\<open>primary_key\<close> and \<^verbatim>\<open>_instance_map\<close> (both \<^verbatim>\<open>None\<close> in
  \<^verbatim>\<open>Object\<close>), and the heap.
\<close>

type_synonym addr = nat

record world =
  primary_key :: "string list option"
  instance_map :: "(hkey list \<times> addr) list option"
  heap :: "pydict list"

text \<open>
  \<^verbatim>\<open>tuple(kwargs[column] for column in cls.primary_key)\<close>: the columns are read in the
  declared order and the first one that is missing raises \<^verbatim>\<open>KeyError\<close>.
\<close>

fun cache_key :: "string list \<Rightarrow> pydict \<Rightarrow> error + pyval list" where
  "cache_key [] kwargs = Inr []"
| "cache_key (column # columns) kwargs =
     (case map_of kwargs column of
        None \<Rightarrow> Inl (KeyError column)
      | Some v \<Rightarrow>
          (case cache_key columns kwargs of Inl e \<Rightarrow> Inl e | Inr vs \<Rightarrow> Inr (v # vs)))"

text \<open>\<^verbatim>\<open>super(Object, cls).__new__(cls)\<close>: a new instance with an empty \<^verbatim>\<open>__dict__\<close>.\<close>

definition allocate :: "world \<Rightarrow> addr \<times> world" where
  "allocate w = (length (heap w), w\<lparr>heap := heap w @ [[]]\<rparr>)"

text \<open>
  \<^verbatim>\<open>Object.__new__(cls, **kwargs)\<close>. An attribute named \<^verbatim>\<open>cls\<close> collides with the
  parameter and raises before anything is done. The class's map is created before the
  key is computed, so it stays created when the key cannot be computed.
\<close>

definition Object_new :: "world \<Rightarrow> pydict \<Rightarrow> (error + addr) \<times> world" where
  "Object_new w kwargs =
     (case bind_keywords ''Object.__new__'' [''cls''] kwargs of
        Inl e \<Rightarrow> (Inl e, w)
      | Inr u \<Rightarrow>
     (case primary_key w of
        None \<Rightarrow> (case allocate w of (obj, w') \<Rightarrow> (Inr obj, w'))
      | Some pk \<Rightarrow>
          (let m = (case instance_map w of None \<Rightarrow> [] | Some m \<Rightarrow> m);
               w1 = w\<lparr>instance_map := Some m\<rparr>
           in case cache_key pk kwargs of
                Inl e \<Rightarrow> (Inl e, w1)
              | Inr ck \<Rightarrow>
                  (case hash_tuple ck of
                     Inl e \<Rightarrow> (Inl e, w1)
                   | Inr hk \<Rightarrow>
                       (case map_of m hk of
                          Some obj \<Rightarrow> (Inr obj, w1)
                        | None \<Rightarrow>
                            (case allocate w1 of
                               (obj, w2) \<Rightarrow>
                                 (Inr obj,
                                  w2\<lparr>instance_map := Some (AList.update hk obj m)\<rparr>)))))))"

text \<open>
  \<^verbatim>\<open>Object.__init__(self, **kwargs)\<close> and \<^verbatim>\<open>Object.update(self, **kwargs)\<close>;
  \<open>self\<close> is the address of an instance. An attribute named \<^verbatim>\<open>self\<close> collides
  with the parameter and raises before anything is stored.
\<close>

definition Object_init :: "world \<Rightarrow> addr \<Rightarrow> pydict \<Rightarrow> (error + unit) \<times> world" where
  "Object_init w self kwargs =
     (case bind_keywords ''Object.__init__'' [''self''] kwargs of
        Inl e \<Rightarrow> (Inl e, w)
      | Inr u \<Rightarrow>
          (Inr (), w\<lparr>heap := (heap w)[self := dict_update (heap w ! self) kwargs]\<rparr>))"

definition Object_update :: "world \<Rightarrow> addr \<Rightarrow> pydict \<Rightarrow> (error + unit) \<times> world" where
  "Object_update w self kwargs =
     (case bind_keywords ''Object.update'' [''self''] kwargs of
        Inl e \<Rightarrow> (Inl e, w)
      | Inr u \<Rightarrow>
          (Inr (), w\<lparr>heap := (heap w)[self := dict_update (heap w ! self) kwargs]\<rparr>))"

text \<open>
  The call \<^verbatim>\<open>cls(**kwargs)\<close>: \<^verbatim>\<open>__new__\<close>, and then \<^verbatim>\<open>__init__\<close> on the instance
  that \<^verbatim>\<open>__new__\<close> returned, with the same keyword arguments, whether the instance is
  new or was found in the map. When \<^verbatim>\<open>__init__\<close> raises, what \<^verbatim>\<open>__new__\<close> did
  stays done.
\<close>

definition Object_call :: "world \<Rightarrow> pydict \<Rightarrow> (error + addr) \<times> world" where
  "Object_call w kwargs =
     (case Object_new w kwargs of
        (Inl e, w') \<Rightarrow> (Inl e, w')
      | (Inr obj, w') \<Rightarrow>
          (case Object_init w' obj kwargs of
             (Inl e, w'') \<Rightarrow> (Inl e, w'')
           | (Inr u, w'') \<Rightarrow> (Inr obj, w'')))"

text \<open>The entries of the class's map; no map yet is no entry.\<close>

definition entries :: "world \<Rightarrow> (hkey list \<times> addr) list" where
  "entries w = (case instance_map w of None \<Rightarrow> [] | Some m \<Rightarrow> m)"

text \<open>Every address in the map is the address of an instance.\<close>

definition wf_world :: "world \<Rightarrow> bool" where
  "wf_world w = list_all (\<lambda>ka. snd ka < length (heap w)) (entries w)"

text \<open>
  A program over one model type, as far as the world sees it: constructions
  \<^verbatim>\<open>cls(**kwargs)\<close> and calls of \<^verbatim>\<open>Object.update\<close>, in any order, each one returning
  or raising. \<^verbatim>\<open>Object.update\<close> is called on an instance directly, or through
  \<^verbatim>\<open>super\<close> by a model that overrides \<^verbatim>\<open>update\<close>, as \<^verbatim>\<open>Options\<close> does.
\<close>

datatype operation = Construct pydict | Update addr pydict

fun step :: "world \<Rightarrow> operation \<Rightarrow> world" where
  "step w (Construct kwargs) = snd (Object_call w kwargs)"
| "step w (Update self kwargs) = snd (Object_update w self kwargs)"

definition run :: "world \<Rightarrow> operation list \<Rightarrow> world" where
  "run w ops = foldl step w ops"

text \<open>
  The class attributes of the model \<^verbatim>\<open>Options\<close> of the repository, before any instance
  exists.
\<close>

definition Options :: world where
  "Options = \<lparr>primary_key = Some [''name''], instance_map = None, heap = []\<rparr>"

section \<open>Database: the connection gateway\<close>

text \<open>
  \<^verbatim>\<open>psycopg2\<close> is not part of the repository; the gateway is modelled over a driver.
  \<^typ>\<open>'c\<close> is the state of an open connection. \<open>connect\<close> opens one or raises;
  \<open>cursor_execute\<close> stands for \<^verbatim>\<open>connection.cursor()\<close> followed by
  \<^verbatim>\<open>cursor.execute(query_string, *args)\<close> and gives the cursor with its result set, or
  raises. A cursor is the ordered column names of \<^verbatim>\<open>cursor.description\<close> and the rows
  not fetched yet.
\<close>

record cursor =
  description :: "string list"
  rows :: "pyval list list"

record 'c driver =
  connect :: "string \<Rightarrow> string \<Rightarrow> string \<Rightarrow> string option \<Rightarrow> int option \<Rightarrow> error + 'c"
  cursor_execute :: "'c \<Rightarrow> string \<Rightarrow> pyval list \<Rightarrow> (error + cursor) \<times> 'c"
  connection_commit :: "'c \<Rightarrow> (error + unit) \<times> 'c"
  connection_rollback :: "'c \<Rightarrow> (error + unit) \<times> 'c"

text \<open>
  \<^verbatim>\<open>class Database(Singleton)\<close>: every \<^verbatim>\<open>Database()\<close> is the one instance, so the
  gateway is one record, passed to each method and returned by it. Its attributes are
  all \<^verbatim>\<open>None\<close> until \<^verbatim>\<open>initialize\<close> has run. A method that raises returns the
  error together with the gateway as the exception leaves it.
\<close>

record 'c Database =
  database :: "string option"
  user :: "string option"
  connection :: "'c option"

definition new_Database :: "'c Database" where
  "new_Database = \<lparr>database = None, user = None, connection = None\<rparr>"

definition initialize ::
  "'c driver \<Rightarrow> 'c Database \<Rightarrow> string \<Rightarrow> string \<Rightarrow> string \<Rightarrow> string option \<Rightarrow> int option
     \<Rightarrow> (error + unit) \<times> 'c Database" where
  "initialize drv self database' user' password host port =
     (if connection self \<noteq> None
      then (Inl (RuntimeError ''Database connection already exists''), self)
      else
        (case connect drv database' user' password host port of
           Inl e \<Rightarrow> (Inl e, self)
         | Inr c \<Rightarrow>
             (Inr (),
              self\<lparr>connection := Some c, database := Some database', user := Some user'\<rparr>)))"

definition get_connection :: "'c Database \<Rightarrow> error + 'c" where
  "get_connection self =
     (case connection self of
        None \<Rightarrow> Inl (RuntimeError ''No database connection'')
      | Some c \<Rightarrow> Inr c)"

definition commit :: "'c driver \<Rightarrow> 'c Database \<Rightarrow> (error + unit) \<times> 'c Database" where
  "commit drv self =
     (case get_connection self of
        Inl e \<Rightarrow> (Inl e, self)
      | Inr c \<Rightarrow>
          (case connection_commit drv c of (r, c') \<Rightarrow> (r, self\<lparr>connection := Some c'\<rparr>)))"

definition rollback :: "'c driver \<Rightarrow> 'c Database \<Rightarrow> (error + unit) \<times> 'c Database" where
  "rollback drv self =
     (case connection self of
        None \<Rightarrow> (Inr (), self)
      | Some c \<Rightarrow>
          (case connection_rollback drv c of (r, c') \<Rightarrow> (r, self\<lparr>connection := Some c'\<rparr>)))"

definition get_cursor_for_query ::
  "'c driver \<Rightarrow> 'c Database \<Rightarrow> Query \<Rightarrow> (error + cursor) \<times> 'c Database" where
  "get_cursor_for_query drv self query =
     (case get_connection self of
        Inl e \<Rightarrow> (Inl e, self)
      | Inr c \<Rightarrow>
          (case cursor_execute drv c (query_string query) (args query) of
             (r, c') \<Rightarrow> (r, self\<lparr>connection := Some c'\<rparr>)))"

definition execute ::
  "'c driver \<Rightarrow> 'c Database \<Rightarrow> Query \<Rightarrow> (error + cursor) \<times> 'c Database" where
  "execute drv self query = get_cursor_for_query drv self query"

definition get_column_names_from_cursor :: "cursor \<Rightarrow> string list" where
  "get_column_names_from_cursor cur = description cur"

text \<open>
  \<^verbatim>\<open>{name: value for name, value in zip(names, row)}\<close> stores the pairs in order into an
  empty dictionary.
\<close>

definition populate_rows_with_names :: "pyval list list \<Rightarrow> string list \<Rightarrow> pydict list" where
  "populate_rows_with_names rows' names = map (\<lambda>row. dict_update [] (zip names row)) rows'"

definition fetchone :: "cursor \<Rightarrow> pyval list option" where
  "fetchone cur = (case rows cur of [] \<Rightarrow> None | row # rest \<Rightarrow> Some row)"

definition fetchall :: "cursor \<Rightarrow> pyval list list" where
  "fetchall cur = rows cur"

definition get_one ::
  "'c driver \<Rightarrow> 'c Database \<Rightarrow> Query \<Rightarrow> (error + pydict option) \<times> 'c Database" where
  "get_one drv self query =
     (case get_cursor_for_query drv self query of
        (Inl e, self') \<Rightarrow> (Inl e, self')
      | (Inr cur, self') \<Rightarrow>
          (case fetchone cur of
             None \<Rightarrow> (Inr None, self')
           | Some row \<Rightarrow>
               (case populate_rows_with_names [row] (get_column_names_from_cursor cur) of
                  [] \<Rightarrow> (Inl (IndexError ''list index out of range''), self')
                | named # rest \<Rightarrow> (Inr (Some named), self'))))"

definition get_all ::
  "'c driver \<Rightarrow> 'c Database \<Rightarrow> Query \<Rightarrow> (error + pydict list) \<times> 'c Database" where
  "get_all drv self query =
     (case get_cursor_for_query drv self query of
        (Inl e, self') \<Rightarrow> (Inl e, self')
      | (Inr cur, self') \<Rightarrow>
          (Inr (populate_rows_with_names (fetchall cur) (get_column_names_from_cursor cur)),
           self'))"

section \<open>Options: the update of an option\<close>

text \<open>
  \<^verbatim>\<open>Options.update(self, value)\<close> overrides \<^verbatim>\<open>Object.update\<close>. It reads
  \<^verbatim>\<open>self.name\<close> (an instance without that attribute raises \<^verbatim>\<open>AttributeError\<close>),
  builds the \<^verbatim>\<open>UPDATE ... RETURNING *\<close> query, fetches one row through the gateway and
  passes the row to \<^verbatim>\<open>Object.update\<close> as keyword arguments; \<^verbatim>\<open>**None\<close>, when no
  row came back, raises \<^verbatim>\<open>TypeError\<close> (its message is given without the name of the
  function). The method touches the gateway and the world.
\<close>

definition update_template :: string where
  "update_template = ''UPDATE options SET value = %(value)s WHERE name = %(name)s RETURNING *''"

definition Options_update ::
  "'c driver \<Rightarrow> 'c Database \<Rightarrow> world \<Rightarrow> addr \<Rightarrow> pyval
     \<Rightarrow> (error + unit) \<times> 'c Database \<times> world" where
  "Options_update drv db w self value =
     (case map_of (heap w ! self) ''name'' of
        None \<Rightarrow>
          (Inl (AttributeError
             (str_repr ''Options'' @ '' object has no attribute '' @ str_repr ''name'')),
           db, w)
      | Some name \<Rightarrow>
          (case Query_init update_template [] [(''name'', name), (''value'', value)] of
             Inl e \<Rightarrow> (Inl e, db, w)
           | Inr query \<Rightarrow>
               (case get_one drv db query of
                  (Inl e, db') \<Rightarrow> (Inl e, db', w)
                | (Inr None, db') \<Rightarrow>
                    (Inl (TypeError ''argument after ** must be a mapping, not NoneType''),
                     db', w)
                | (Inr (Some option_info), db') \<Rightarrow>
                    (case Object_update w self option_info of
                       (r, w') \<Rightarrow> (r, db', w')))))"

section \<open>Concrete data for the examples\<close>

text \<open>Two attribute sets of the demo table that agree on the key \<^verbatim>\<open>name\<close>.\<close>

definition first_one :: pydict where
  "first_one = [(''name'', VStr ''first''), (''value'', VStr ''one'')]"

definition first_two :: pydict where
  "first_two = [(''name'', VStr ''first''), (''value'', VStr ''two'')]"

text \<open>The world after \<^verbatim>\<open>Options(name='first', value='one')\<close>: one instance, at address 0.\<close>

definition Options_first :: world where
  "Options_first =
     \<lparr>primary_key = Some [''name''],
      instance_map = Some [([KStr ''first''], 0)],
      heap = [first_one]\<rparr>"

text \<open>
  A driver to run the gateway on: it accepts one password, counts the statements it
  has executed in the connection state, and answers a statement that has arguments
  with one row of the demo table and a statement without arguments with no row.
\<close>

definition stub_driver :: "nat driver" where
  "stub_driver =
     \<lparr>connect = (\<lambda>database' user' password host port.
         if password = ''password'' then Inr 0
         else Inl (DatabaseError ''password authentication failed'')),
      cursor_execute = (\<lambda>c qs as.
         (Inr \<lparr>description = [''name'', ''value''],
               rows = (if as = [] then [] else [[VStr ''first'', VStr ''one'']])\<rparr>,
          Suc c)),
      connection_commit = (\<lambda>c. (Inr (), c)),
      connection_rollback = (\<lambda>c. (Inr (), c))\<rparr>"

text \<open>
  A driver whose statements answer with their named arguments as one row, as
  \<^verbatim>\<open>RETURNING *\<close> does for the demo table after an insert or an update.
\<close>

definition returning_driver :: "nat driver" where
  "returning_driver =
     \<lparr>connect = (\<lambda>database' user' password host port. Inr 0),
      cursor_execute = (\<lambda>c qs as.
         (case as of
            [VDict d] \<Rightarrow> (Inr \<lparr>description = map fst d, rows = [map snd d]\<rparr>, Suc c)
          | _ \<Rightarrow> (Inr \<lparr>description = [], rows = []\<rparr>, Suc c))),
      connection_commit = (\<lambda>c. (Inr (), c)),
      connection_rollback = (\<lambda>c. (Inr (), c))\<rparr>"

definition connected :: "nat Database" where
  "connected = \<lparr>database = Some ''database'', user = Some ''user'', connection = Some 0\<rparr>"

definition get_option_query :: Query where
  "get_option_query =
     \<lparr>query_string = ''SELECT * FROM options WHERE name = %(name)s'',
      args = [VDict [(''name'', VStr ''first'')]]\<rparr>"

definition get_all_query :: Query where
  "get_all_query = \<lparr>query_string = ''SELECT * FROM options ORDER BY LOWER(name)'', args = []\<rparr>"

section \<open>Facts about dictionaries\<close>

lemma update_fresh: "k \<notin> fst ` set al \<Longrightarrow> AList.update k v al = al @ [(k, v)]"
  by (induction al) auto

lemma dict_update_Nil: "dict_update d [] = d"
  by (simp add: dict_update_def)

lemma dict_update_Cons:
  "dict_update d (kv # kws) = dict_update (AList.update (fst kv) (snd kv) d) kws"
  by (simp add: dict_update_def)

text \<open>
  After \<^verbatim>\<open>d.update(kwargs)\<close> a name bound in \<^verbatim>\<open>kwargs\<close> has the value bound there
  (the last one, were a name bound twice), and every other name has the value it had.
\<close>

lemma map_of_dict_update_lookup:
  "map_of (dict_update d kws) n =
     (case map_of (rev kws) n of None \<Rightarrow> map_of d n | Some v \<Rightarrow> Some v)"
proof (induction kws arbitrary: d)
  case Nil
  show ?case by (simp add: dict_update_Nil)
next
  case (Cons kv kws)
  show ?case
    by (cases kv)
      (simp add: dict_update_Cons Cons.IH update_conv' map_add_def split: option.splits)
qed

text \<open>Storing pairs with new, distinct names appends them in order.\<close>

lemma dict_update_fresh:
  "distinct (map fst d @ map fst kws) \<Longrightarrow> dict_update d kws = d @ kws"
proof (induction kws arbitrary: d)
  case Nil
  show ?case by (simp add: dict_update_Nil)
next
  case (Cons kv kws)
  have "fst kv \<notin> fst ` set d" using Cons.prems by auto
  then have u: "AList.update (fst kv) (snd kv) d = d @ [kv]" by (simp add: update_fresh)
  have "distinct (map fst (d @ [kv]) @ map fst kws)" using Cons.prems by auto
  then show ?case using Cons.IH [of "d @ [kv]"] by (simp add: dict_update_Cons u)
qed

section \<open>Query: construction and rendering\<close>

lemmas format_defs = Query_repr_def format_mod_def emit_def convert_def str_repr_def
  repr_char_def quote_def dquote_def backslash_def Let_def int_repr_def hex_digit_def
  nat_repr.simps

text \<open>
  The keywords of a call bind exactly when none of them has the name of a parameter
  filled by position; otherwise the call raises \<^verbatim>\<open>TypeError\<close>.
\<close>

lemma find_fst_None_iff:
  "find (\<lambda>kv. fst kv \<in> set params) kwargs = None \<longleftrightarrow>
     (\<forall>p \<in> set params. map_of kwargs p = None)"
  by (auto simp: find_None_iff map_of_eq_None_iff)



lemma bind_keywords_single:
  "bind_keywords fname [p] kwargs =
     (if map_of kwargs p = None then Inr ()
      else Inl (TypeError (fname @ ''() got multiple values for argument '' @ str_repr p)))"
proof (cases "find (\<lambda>kv. fst kv \<in> set [p]) kwargs")
  case None
  then show ?thesis
    using find_fst_None_iff [of "[p]" kwargs] by (simp add: bind_keywords_def)
next
  case (Some kv)
  then have "fst kv = p"
    by (auto simp: find_Some_iff)
  moreover have "map_of kwargs p \<noteq> None"
    using Some find_fst_None_iff [of "[p]" kwargs] by auto
  ultimately show ?thesis
    using Some by (simp add: bind_keywords_def)
qed




text \<open>
  C5. \<^verbatim>\<open>Query("SELECT * FROM t WHERE name = %(name)s", name="x")\<close> is constructed, and
  its \<^verbatim>\<open>repr\<close> is \<^verbatim>\<open>SELECT * FROM t WHERE name = 'x'\<close>: the named placeholder is
  replaced by the quoted representation of the value (\<^term>\<open>CHR 0x27\<close> is the single
  quote).
\<close>

theorem Query_repr_named_example:
  "Query_init ''SELECT * FROM t WHERE name = %(name)s'' [] [(''name'', VStr ''x'')] =
     Inr \<lparr>query_string = ''SELECT * FROM t WHERE name = %(name)s'',
          args = [VDict [(''name'', VStr ''x'')]]\<rparr> \<and>
   Query_repr \<lparr>query_string = ''SELECT * FROM t WHERE name = %(name)s'',
               args = [VDict [(''name'', VStr ''x'')]]\<rparr> =
     Inr (''SELECT * FROM t WHERE name = '' @ [CHR 0x27] @ ''x'' @ [CHR 0x27])"
  by (simp add: Query_init_def bind_keywords_def format_defs)

text \<open>
  C3. The rendering of positional arguments does not substitute them by position. The
  operand of \<^verbatim>\<open>%\<close> is a list, which the operator takes as one argument:
  \<^verbatim>\<open>repr(Query("SELECT * FROM t WHERE id = %s", 5))\<close> is
  \<^verbatim>\<open>SELECT * FROM t WHERE id = ['5']\<close>, not \<^verbatim>\<open>SELECT * FROM t WHERE id = 5\<close>, and
  with two placeholders and two arguments the rendering raises \<^verbatim>\<open>TypeError\<close>.
  Passing the arguments as one sequence, \<^verbatim>\<open>Query("SELECT * FROM t WHERE id = %s", [5])\<close>,
  renders \<^verbatim>\<open>SELECT * FROM t WHERE id = ['[5]']\<close>.
\<close>

theorem Query_repr_positional_fails:
  "Query_init ''SELECT * FROM t WHERE id = %s'' [VInt 5] [] =
     Inr \<lparr>query_string = ''SELECT * FROM t WHERE id = %s'', args = [VInt 5]\<rparr> \<and>
   Query_repr \<lparr>query_string = ''SELECT * FROM t WHERE id = %s'', args = [VInt 5]\<rparr> =
     Inr (''SELECT * FROM t WHERE id = ['' @ [CHR 0x27] @ ''5'' @ [CHR 0x27] @ '']'') \<and>
   Query_init ''SELECT * FROM t WHERE a = %s AND b = %s'' [VInt 1, VInt 2] [] =
     Inr \<lparr>query_string = ''SELECT * FROM t WHERE a = %s AND b = %s'',
          args = [VInt 1, VInt 2]\<rparr> \<and>
   Query_repr \<lparr>query_string = ''SELECT * FROM t WHERE a = %s AND b = %s'',
               args = [VInt 1, VInt 2]\<rparr> =
     Inl (TypeError ''not enough arguments for format string'') \<and>
   Query_repr \<lparr>query_string = ''SELECT * FROM t WHERE id = %s'', args = [VList [VInt 5]]\<rparr> =
     Inr (''SELECT * FROM t WHERE id = ['' @ [CHR 0x27] @ ''[5]'' @ [CHR 0x27] @ '']'')"
  by (simp add: Query_init_def bind_keywords_def format_defs)

section \<open>Database: misuse, absence and failed initialisation\<close>

lemmas gateway_defs = execute_def get_one_def get_all_def get_cursor_for_query_def
  get_connection_def rollback_def initialize_def

text \<open>
  C6. A new gateway has no connection. On a gateway without a connection
  \<^verbatim>\<open>execute\<close>, \<^verbatim>\<open>get_one\<close> and \<^verbatim>\<open>get_all\<close> raise
  \<^verbatim>\<open>RuntimeError('No database connection')\<close> and \<^verbatim>\<open>rollback\<close> returns without
  touching anything. After an \<^verbatim>\<open>initialize\<close> that succeeded, every further
  \<^verbatim>\<open>initialize\<close> raises \<^verbatim>\<open>RuntimeError('Database connection already exists')\<close> and
  leaves the gateway as it is.
\<close>

theorem gateway_usage_errors:
  "connection (new_Database :: 'c Database) = None \<and>
   (connection self = None \<longrightarrow>
      execute drv self q = (Inl (RuntimeError ''No database connection''), self) \<and>
      get_one drv self q = (Inl (RuntimeError ''No database connection''), self) \<and>
      get_all drv self q = (Inl (RuntimeError ''No database connection''), self) \<and>
      rollback drv self = (Inr (), self)) \<and>
   (initialize drv self database' user' password host port = (Inr (), self') \<longrightarrow>
      initialize drv2 self' database2 user2 password2 host2 port2 =
        (Inl (RuntimeError ''Database connection already exists''), self'))"
  by (auto simp: gateway_defs new_Database_def split: sum.splits if_splits)

theorem gateway_usage_errors_witness:
  "execute stub_driver new_Database get_option_query =
      (Inl (RuntimeError ''No database connection''), new_Database) \<and>
   get_one stub_driver new_Database get_option_query =
      (Inl (RuntimeError ''No database connection''), new_Database) \<and>
   get_all stub_driver new_Database get_option_query =
      (Inl (RuntimeError ''No database connection''), new_Database) \<and>
   rollback stub_driver new_Database = (Inr (), new_Database) \<and>
   initialize stub_driver new_Database ''database'' ''user'' ''password''
      (Some ''localhost'') (Some 5432) = (Inr (), connected) \<and>
   initialize stub_driver connected ''database'' ''user'' ''password''
      (Some ''localhost'') (Some 5432) =
      (Inl (RuntimeError ''Database connection already exists''), connected)"
proof -
  have i: "initialize stub_driver new_Database ''database'' ''user'' ''password''
             (Some ''localhost'') (Some 5432) = (Inr (), connected)"
    by (simp add: initialize_def new_Database_def stub_driver_def connected_def)
  have n: "connection (new_Database :: nat Database) = None"
    by (simp add: new_Database_def)
  show ?thesis
    using gateway_usage_errors [of new_Database stub_driver get_option_query "''database''"
        "''user''" "''password''" "Some ''localhost''" "Some 5432" connected stub_driver
        "''database''" "''user''" "''password''" "Some ''localhost''" "Some 5432"] i n
    by blast
qed

text \<open>
  C10. When \<^verbatim>\<open>initialize\<close> reaches \<^verbatim>\<open>connect\<close> and \<^verbatim>\<open>connect\<close> raises, the error
  is passed on and the gateway is exactly as before: no connection, the same
  \<^verbatim>\<open>database\<close> and \<^verbatim>\<open>user\<close>. So \<^verbatim>\<open>execute\<close>, \<^verbatim>\<open>get_one\<close> and \<^verbatim>\<open>get_all\<close>
  still raise the no-connection error, \<^verbatim>\<open>rollback\<close> still does nothing, and a later
  \<^verbatim>\<open>initialize\<close> is not refused: its outcome is the outcome of its own \<^verbatim>\<open>connect\<close>.
\<close>

theorem initialize_failure_unchanged:
  assumes "connection self = None"
    and "connect drv database' user' password host port = Inl e"
  shows "initialize drv self database' user' password host port = (Inl e, self) \<and>
         execute drv2 self q = (Inl (RuntimeError ''No database connection''), self) \<and>
         get_one drv2 self q = (Inl (RuntimeError ''No database connection''), self) \<and>
         get_all drv2 self q = (Inl (RuntimeError ''No database connection''), self) \<and>
         rollback drv2 self = (Inr (), self) \<and>
         initialize drv2 self database2 user2 password2 host2 port2 =
           (case connect drv2 database2 user2 password2 host2 port2 of
              Inl e2 \<Rightarrow> (Inl e2, self)
            | Inr c \<Rightarrow>
                (Inr (),
                 \<lparr>database = Some database2, user = Some user2, connection = Some c\<rparr>))"
  using assms by (cases self) (auto simp: gateway_defs split: sum.splits)

theorem initialize_failure_unchanged_witness:
  "connection (new_Database :: nat Database) = None \<and>
   connect stub_driver ''database'' ''user'' ''wrong'' None None =
     Inl (DatabaseError ''password authentication failed'') \<and>
   initialize stub_driver new_Database ''database'' ''user'' ''wrong'' None None =
     (Inl (DatabaseError ''password authentication failed''), new_Database) \<and>
   execute stub_driver new_Database get_option_query =
     (Inl (RuntimeError ''No database connection''), new_Database) \<and>
   rollback stub_driver new_Database = (Inr (), new_Database) \<and>
   initialize stub_driver new_Database ''database'' ''user'' ''password'' None None =
     (Inr (), connected)"
proof -
  have n: "connection (new_Database :: nat Database) = None"
    by (simp add: new_Database_def)
  have c: "connect stub_driver ''database'' ''user'' ''wrong'' None None =
             Inl (DatabaseError ''password authentication failed'')"
    by (simp add: stub_driver_def)
  have c2: "connect stub_driver ''database'' ''user'' ''password'' None None = Inr 0"
    by (simp add: stub_driver_def)
  show ?thesis
    using initialize_failure_unchanged [OF n c, of stub_driver get_option_query
        "''database''" "''user''" "''password''" None None] n c
    by (simp add: c2 connected_def)
qed

lemma decode_row_lookup:
  "map_of (dict_update [] (zip names row)) n = map_of (rev (zip names row)) n"
  by (simp add: map_of_dict_update_lookup split: option.splits)

lemma decode_row_distinct:
  "distinct names \<Longrightarrow> dict_update [] (zip names row) = zip names row"
  using dict_update_fresh [of "[]" "zip names row"]
  by (simp add: map_fst_zip_take distinct_take)

lemma get_one_connected:
  assumes "connection self = Some c"
    and "cursor_execute drv c (query_string q) (args q) = (Inr cur, c')"
  shows "get_one drv self q =
           (case rows cur of
              [] \<Rightarrow> (Inr None, self\<lparr>connection := Some c'\<rparr>)
            | row # rest \<Rightarrow>
                (Inr (Some (dict_update [] (zip (description cur) row))),
                 self\<lparr>connection := Some c'\<rparr>))"
  using assms
  by (simp add: get_one_def get_cursor_for_query_def get_connection_def fetchone_def
      populate_rows_with_names_def get_column_names_from_cursor_def split: list.splits)

text \<open>
  C7. On a gateway with a connection, when the statement executes and gives a cursor:
  if the result set is empty, \<^verbatim>\<open>get_one\<close> returns \<^verbatim>\<open>None\<close> and raises nothing; if
  it is not, \<^verbatim>\<open>get_one\<close> returns a dictionary decoded from the first row with the
  column names the cursor reports. Each name maps to the value of its column (of its
  last column, should a name occur twice); with distinct names the dictionary is the
  names paired with the row's values in order, and the name of column \<open>i\<close> maps
  to the row's value \<open>i\<close>.
\<close>

theorem get_one_absent_or_first_row:
  assumes "connection self = Some c"
    and "cursor_execute drv c (query_string q) (args q) = (Inr cur, c')"
  shows "(rows cur = [] \<longrightarrow>
            get_one drv self q = (Inr None, self\<lparr>connection := Some c'\<rparr>)) \<and>
         (\<forall>row rest. rows cur = row # rest \<longrightarrow>
            (\<exists>named.
               get_one drv self q = (Inr (Some named), self\<lparr>connection := Some c'\<rparr>) \<and>
               (\<forall>n. map_of named n = map_of (rev (zip (description cur) row)) n) \<and>
               (distinct (description cur) \<longrightarrow> named = zip (description cur) row) \<and>
               (distinct (description cur) \<and> length row = length (description cur) \<longrightarrow>
                  (\<forall>i < length row. map_of named (description cur ! i) = Some (row ! i)))))"
proof (intro conjI allI impI)
  assume "rows cur = []"
  then show "get_one drv self q = (Inr None, self\<lparr>connection := Some c'\<rparr>)"
    using get_one_connected [OF assms] by simp
next
  fix row rest
  assume r: "rows cur = row # rest"
  let ?named = "dict_update [] (zip (description cur) row)"
  have 1: "get_one drv self q = (Inr (Some ?named), self\<lparr>connection := Some c'\<rparr>)"
    using get_one_connected [OF assms] r by simp
  have 2: "\<forall>n. map_of ?named n = map_of (rev (zip (description cur) row)) n"
    by (simp add: decode_row_lookup)
  have 3: "distinct (description cur) \<longrightarrow> ?named = zip (description cur) row"
    by (simp add: decode_row_distinct)
  have 4: "distinct (description cur) \<and> length row = length (description cur) \<longrightarrow>
             (\<forall>i < length row. map_of ?named (description cur ! i) = Some (row ! i))"
    by (simp add: decode_row_distinct map_of_zip_nth)
  show "\<exists>named.
          get_one drv self q = (Inr (Some named), self\<lparr>connection := Some c'\<rparr>) \<and>
          (\<forall>n. map_of named n = map_of (rev (zip (description cur) row)) n) \<and>
          (distinct (description cur) \<longrightarrow> named = zip (description cur) row) \<and>
          (distinct (description cur) \<and> length row = length (description cur) \<longrightarrow>
             (\<forall>i < length row. map_of named (description cur ! i) = Some (row ! i)))"
    using 1 2 3 4 by blast
qed

theorem get_one_absent_or_first_row_witness:
  "connection connected = Some 0 \<and>
   cursor_execute stub_driver 0 (query_string get_all_query) (args get_all_query) =
     (Inr \<lparr>description = [''name'', ''value''], rows = []\<rparr>, 1) \<and>
   get_one stub_driver connected get_all_query = (Inr None, connected\<lparr>connection := Some 1\<rparr>) \<and>
   cursor_execute stub_driver 0 (query_string get_option_query) (args get_option_query) =
     (Inr \<lparr>description = [''name'', ''value''], rows = [[VStr ''first'', VStr ''one'']]\<rparr>, 1) \<and>
   get_one stub_driver connected get_option_query =
     (Inr (Some [(''name'', VStr ''first''), (''value'', VStr ''one'')]),
      connected\<lparr>connection := Some 1\<rparr>)"
proof -
  have c: "connection connected = Some 0"
    by (simp add: connected_def)
  have e1: "cursor_execute stub_driver 0 (query_string get_all_query) (args get_all_query) =
              (Inr \<lparr>description = [''name'', ''value''], rows = []\<rparr>, 1)"
    by (simp add: stub_driver_def get_all_query_def)
  have e2: "cursor_execute stub_driver 0 (query_string get_option_query)
              (args get_option_query) =
              (Inr \<lparr>description = [''name'', ''value''],
                    rows = [[VStr ''first'', VStr ''one'']]\<rparr>, 1)"
    by (simp add: stub_driver_def get_option_query_def)
  show ?thesis
    using get_one_absent_or_first_row [OF c e1] get_one_absent_or_first_row [OF c e2] c e1 e2
    by auto
qed

section \<open>Object: construction, identity and update\<close>

lemma entries_instance_map_update [simp]: "entries (w\<lparr>instance_map := Some m\<rparr>) = m"
  by (simp add: entries_def)

lemma entries_heap_update [simp]: "entries (w\<lparr>heap := h\<rparr>) = entries w"
  by (simp add: entries_def)

lemma Object_new_collision:
  "map_of kwargs ''cls'' \<noteq> None \<Longrightarrow>
     Object_new w kwargs =
       (Inl (TypeError (''Object.__new__() got multiple values for argument '' @
                        str_repr ''cls'')), w)"
  by (auto simp: Object_new_def bind_keywords_single)

lemma Object_new_unkeyed:
  "map_of kwargs ''cls'' = None \<Longrightarrow> primary_key w = None \<Longrightarrow>
     Object_new w kwargs = (Inr (length (heap w)), w\<lparr>heap := heap w @ [[]]\<rparr>)"
  by (simp add: Object_new_def bind_keywords_single allocate_def)

lemma Object_new_KeyError:
  "map_of kwargs ''cls'' = None \<Longrightarrow> primary_key w = Some pk \<Longrightarrow>
   cache_key pk kwargs = Inl e \<Longrightarrow>
     Object_new w kwargs = (Inl e, w\<lparr>instance_map := Some (entries w)\<rparr>)"
  by (simp add: Object_new_def bind_keywords_single entries_def Let_def)

lemma Object_new_TypeError:
  "map_of kwargs ''cls'' = None \<Longrightarrow> primary_key w = Some pk \<Longrightarrow>
   cache_key pk kwargs = Inr ck \<Longrightarrow> hash_tuple ck = Inl e \<Longrightarrow>
     Object_new w kwargs = (Inl e, w\<lparr>instance_map := Some (entries w)\<rparr>)"
  by (simp add: Object_new_def bind_keywords_single entries_def Let_def)

lemma Object_new_cached:
  "map_of kwargs ''cls'' = None \<Longrightarrow> primary_key w = Some pk \<Longrightarrow>
   cache_key pk kwargs = Inr ck \<Longrightarrow> hash_tuple ck = Inr hk \<Longrightarrow>
   map_of (entries w) hk = Some obj \<Longrightarrow>
     Object_new w kwargs = (Inr obj, w)"
  by (cases "instance_map w")
    (simp_all add: Object_new_def bind_keywords_single entries_def Let_def)

lemma Object_new_fresh:
  assumes cls: "map_of kwargs ''cls'' = None"
    and pk: "primary_key w = Some pk" and ck: "cache_key pk kwargs = Inr ck"
    and hk: "hash_tuple ck = Inr hk" and none: "map_of (entries w) hk = None"
  shows "Object_new w kwargs =
           (Inr (length (heap w)),
            w\<lparr>instance_map := Some (entries w @ [(hk, length (heap w))]),
              heap := heap w @ [[]]\<rparr>)"
proof -
  have "hk \<notin> fst ` set (entries w)"
    using none by (simp add: map_of_eq_None_iff)
  then have u: "AList.update hk obj (entries w) = entries w @ [(hk, obj)]" for obj
    by (rule update_fresh)
  have m: "(case instance_map w of None \<Rightarrow> [] | Some m \<Rightarrow> m) = entries w"
    by (simp add: entries_def)
  show ?thesis
    unfolding Object_new_def Let_def m
    by (simp add: bind_keywords_single cls pk ck hk none allocate_def u)
qed

text \<open>The six outcomes of \<^verbatim>\<open>__new__\<close>.\<close>

lemma Object_new_cases:
  obtains (collision) msg where "map_of kwargs ''cls'' \<noteq> None"
      "Object_new w kwargs = (Inl (TypeError msg), w)"
  | (unkeyed) "map_of kwargs ''cls'' = None" "primary_key w = None"
      "Object_new w kwargs = (Inr (length (heap w)), w\<lparr>heap := heap w @ [[]]\<rparr>)"
  | (key_error) pk e where "map_of kwargs ''cls'' = None" "primary_key w = Some pk"
      "cache_key pk kwargs = Inl e"
      "Object_new w kwargs = (Inl e, w\<lparr>instance_map := Some (entries w)\<rparr>)"
  | (type_error) pk ck e where "map_of kwargs ''cls'' = None" "primary_key w = Some pk"
      "cache_key pk kwargs = Inr ck" "hash_tuple ck = Inl e"
      "Object_new w kwargs = (Inl e, w\<lparr>instance_map := Some (entries w)\<rparr>)"
  | (cached) pk ck hk obj where "map_of kwargs ''cls'' = None" "primary_key w = Some pk"
      "cache_key pk kwargs = Inr ck" "hash_tuple ck = Inr hk"
      "map_of (entries w) hk = Some obj"
      "Object_new w kwargs = (Inr obj, w)"
  | (fresh) pk ck hk where "map_of kwargs ''cls'' = None" "primary_key w = Some pk"
      "cache_key pk kwargs = Inr ck" "hash_tuple ck = Inr hk"
      "map_of (entries w) hk = None"
      "Object_new w kwargs =
         (Inr (length (heap w)),
          w\<lparr>instance_map := Some (entries w @ [(hk, length (heap w))]),
            heap := heap w @ [[]]\<rparr>)"
proof (cases "map_of kwargs ''cls'' = None")
  case False
  then show ?thesis
    using collision Object_new_collision by blast
next
  case cls: True
  show ?thesis
  proof (cases "primary_key w")
    case None
    then show ?thesis
      using unkeyed cls by (simp add: Object_new_unkeyed)
  next
    case (Some pk)
    note pk = this
    show ?thesis
    proof (cases "cache_key pk kwargs")
      case (Inl e)
      then show ?thesis
        using key_error cls pk by (simp add: Object_new_KeyError)
    next
      case (Inr ck)
      note ck = this
      show ?thesis
      proof (cases "hash_tuple ck")
        case (Inl e)
        then show ?thesis
          using type_error cls pk ck by (simp add: Object_new_TypeError)
      next
        case (Inr hk)
        show ?thesis
        proof (cases "map_of (entries w) hk")
          case None
          then show ?thesis
            using fresh [OF cls pk ck Inr] cls pk ck Inr by (simp add: Object_new_fresh)
        next
          case (Some obj)
          then show ?thesis
            using cached [OF cls pk ck Inr] cls pk ck Inr by (simp add: Object_new_cached)
        qed
      qed
    qed
  qed
qed

lemma Object_init_eq:
  "Object_init w self kwargs =
     (if map_of kwargs ''self'' = None
      then (Inr (), w\<lparr>heap := (heap w)[self := dict_update (heap w ! self) kwargs]\<rparr>)
      else (Inl (TypeError (''Object.__init__() got multiple values for argument '' @
                            str_repr ''self'')), w))"
  by (simp add: Object_init_def bind_keywords_single)

lemma Object_update_eq:
  "Object_update w self kwargs =
     (if map_of kwargs ''self'' = None
      then (Inr (), w\<lparr>heap := (heap w)[self := dict_update (heap w ! self) kwargs]\<rparr>)
      else (Inl (TypeError (''Object.update() got multiple values for argument '' @
                            str_repr ''self'')), w))"
  by (simp add: Object_update_def bind_keywords_single)

text \<open>What \<^verbatim>\<open>__init__\<close> and \<^verbatim>\<open>update\<close> store is the same.\<close>

lemma snd_Object_init: "snd (Object_init w self kwargs) = snd (Object_update w self kwargs)"
  by (simp add: Object_init_eq Object_update_eq)

lemma entries_Object_update [simp]: "entries (snd (Object_update w self kwargs)) = entries w"
  by (simp add: Object_update_eq)

lemma primary_key_Object_update [simp]:
  "primary_key (snd (Object_update w self kwargs)) = primary_key w"
  by (simp add: Object_update_eq)

lemma instance_map_Object_update [simp]:
  "instance_map (snd (Object_update w self kwargs)) = instance_map w"
  by (simp add: Object_update_eq)

lemma length_heap_Object_update [simp]:
  "length (heap (snd (Object_update w self kwargs))) = length (heap w)"
  by (simp add: Object_update_eq)

lemma wf_world_Object_update: "wf_world w \<Longrightarrow> wf_world (snd (Object_update w self kwargs))"
  by (simp add: wf_world_def)

lemma primary_key_Object_new [simp]:
  "primary_key (snd (Object_new w kwargs)) = primary_key w"
  by (cases rule: Object_new_cases [where w = w and kwargs = kwargs]) simp_all

lemma entries_Object_new_mono:
  "map_of (entries w) k = Some obj \<Longrightarrow> map_of (entries (snd (Object_new w kwargs))) k = Some obj"
  by (cases rule: Object_new_cases [where w = w and kwargs = kwargs]) auto

lemma wf_world_Object_new: "wf_world w \<Longrightarrow> wf_world (snd (Object_new w kwargs))"
  by (cases rule: Object_new_cases [where w = w and kwargs = kwargs])
    (auto simp: wf_world_def list_all_iff)

text \<open>The world after a construction, returned or raised.\<close>

lemma snd_Object_call:
  "snd (Object_call w kwargs) =
     (case fst (Object_new w kwargs) of
        Inl e \<Rightarrow> snd (Object_new w kwargs)
      | Inr obj \<Rightarrow> snd (Object_update (snd (Object_new w kwargs)) obj kwargs))"
  by (simp add: Object_call_def snd_Object_init [symmetric] split: prod.splits sum.splits)

lemma primary_key_Object_call [simp]:
  "primary_key (snd (Object_call w kwargs)) = primary_key w"
  by (simp add: snd_Object_call split: sum.splits)

lemma entries_Object_call_mono:
  "map_of (entries w) k = Some obj \<Longrightarrow> map_of (entries (snd (Object_call w kwargs))) k = Some obj"
  by (simp add: snd_Object_call entries_Object_new_mono split: sum.splits)

lemma wf_world_Object_call: "wf_world w \<Longrightarrow> wf_world (snd (Object_call w kwargs))"
  by (simp add: snd_Object_call wf_world_Object_new wf_world_Object_update split: sum.splits)

lemma primary_key_step [simp]: "primary_key (step w op) = primary_key w"
  by (cases op) simp_all

lemma entries_step_mono:
  "map_of (entries w) k = Some obj \<Longrightarrow> map_of (entries (step w op)) k = Some obj"
  by (cases op) (simp_all add: entries_Object_call_mono)

lemma wf_world_step: "wf_world w \<Longrightarrow> wf_world (step w op)"
  by (cases op) (simp_all add: wf_world_Object_call wf_world_Object_update)

lemma primary_key_run [simp]: "primary_key (run w ops) = primary_key w"
  unfolding run_def by (induction ops arbitrary: w) simp_all

lemma entries_run_mono:
  "map_of (entries w) k = Some obj \<Longrightarrow> map_of (entries (run w ops)) k = Some obj"
  unfolding run_def by (induction ops arbitrary: w) (simp_all add: entries_step_mono)

lemma wf_world_run: "wf_world w \<Longrightarrow> wf_world (run w ops)"
  unfolding run_def by (induction ops arbitrary: w) (simp_all add: wf_world_step)

lemma wf_world_Options: "wf_world Options"
  by (simp add: wf_world_def Options_def entries_def)

text \<open>Every world a program reaches from the empty one is well formed.\<close>

lemma wf_world_reachable: "wf_world (run Options ops)"
  by (rule wf_world_run) (rule wf_world_Options)

text \<open>A construction under a key that the map holds.\<close>

lemma Object_call_cached:
  assumes "map_of kwargs ''cls'' = None" and "map_of kwargs ''self'' = None"
    and "primary_key w = Some pk" and "cache_key pk kwargs = Inr ck"
    and "hash_tuple ck = Inr hk" and "map_of (entries w) hk = Some obj"
  shows "Object_call w kwargs = (Inr obj, snd (Object_update w obj kwargs))"
  using assms
  by (simp add: Object_call_def Object_new_cached Object_init_eq Object_update_eq)

lemma Object_call_cached_collision:
  assumes "map_of kwargs ''cls'' = None" and "map_of kwargs ''self'' \<noteq> None"
    and "primary_key w = Some pk" and "cache_key pk kwargs = Inr ck"
    and "hash_tuple ck = Inr hk" and "map_of (entries w) hk = Some obj"
  shows "Object_call w kwargs =
           (Inl (TypeError (''Object.__init__() got multiple values for argument '' @
                            str_repr ''self'')), w)"
  using assms
  by (auto simp: Object_call_def Object_new_cached Object_init_eq)

lemma Object_call_collision:
  "map_of kwargs ''cls'' \<noteq> None \<Longrightarrow>
     Object_call w kwargs =
       (Inl (TypeError (''Object.__new__() got multiple values for argument '' @
                        str_repr ''cls'')), w)"
  by (auto simp: Object_call_def Object_new_collision)

text \<open>
  A construction under a hashable key, with no attribute named after a parameter,
  returns the instance the map then holds.
\<close>

lemma Object_call_registers:
  assumes "map_of kwargs ''cls'' = None" and "map_of kwargs ''self'' = None"
    and "primary_key w = Some pk" and "cache_key pk kwargs = Inr ck"
    and "hash_tuple ck = Inr hk"
  shows "\<exists>obj. fst (Object_call w kwargs) = Inr obj \<and>
               map_of (entries (snd (Object_call w kwargs))) hk = Some obj"
proof (cases "map_of (entries w) hk")
  case None
  then have "Object_new w kwargs =
           (Inr (length (heap w)),
            w\<lparr>instance_map := Some (entries w @ [(hk, length (heap w))]),
              heap := heap w @ [[]]\<rparr>)"
    using assms by (simp add: Object_new_fresh)
  then show ?thesis
    using assms(2) None by (simp add: Object_call_def Object_init_eq map_add_def)
next
  case (Some obj)
  then show ?thesis
    using Object_call_cached [OF assms Some] by simp
qed

lemma cache_key_find:
  "cache_key pk kwargs =
     (case find (\<lambda>column. map_of kwargs column = None) pk of
        Some missing \<Rightarrow> Inl (KeyError missing)
      | None \<Rightarrow> Inr (map (\<lambda>column. the (map_of kwargs column)) pk))"
  by (induction pk) (auto split: option.splits)

lemmas object_defs = Object_call_def Object_new_def Object_init_def Object_update_def
  bind_keywords_def allocate_def entries_def wf_world_def dict_update_def run_def Let_def
  Options_def Options_first_def first_one_def first_two_def

text \<open>
  C9, as the claim states it, fails. The attribute set \<^verbatim>\<open>{'cls': 1}\<close> omits the key
  attribute \<^verbatim>\<open>name\<close> of \<^verbatim>\<open>Options\<close>, and \<^verbatim>\<open>Options(**{'cls': 1})\<close> does not fail
  with a lookup error: the name collides with the parameter of \<^verbatim>\<open>__new__\<close>, which
  raises \<^verbatim>\<open>TypeError\<close> before it looks any key up.
\<close>

theorem missing_key_collision_counterexample:
  "primary_key Options = Some [''name''] \<and>
   map_of [(''cls'', VInt 1)] ''name'' = None \<and>
   Object_call Options [(''cls'', VInt 1)] =
     (Inl (TypeError (''Object.__new__() got multiple values for argument '' @
                      [CHR 0x27] @ ''cls'' @ [CHR 0x27])), Options)"
  by (simp add: object_defs str_repr_def repr_char_def quote_def dquote_def backslash_def)

text \<open>
  C9, amended. For a model type with a primary key, a construction whose attributes
  lack a declared key attribute fails at once: with \<^verbatim>\<open>TypeError\<close> and the world
  untouched when an attribute is named \<^verbatim>\<open>cls\<close>, and otherwise with \<^verbatim>\<open>KeyError\<close>,
  naming the first declared key attribute that is missing. In both cases the map of the
  type has the entries it had and no instance is created.
\<close>

theorem missing_key_raises:
  assumes "primary_key w = Some pk" and "column \<in> set pk" and "map_of kwargs column = None"
  shows "(map_of kwargs ''cls'' \<noteq> None \<longrightarrow>
            (\<exists>msg. Object_call w kwargs = (Inl (TypeError msg), w))) \<and>
         (map_of kwargs ''cls'' = None \<longrightarrow>
            (\<exists>missing. find (\<lambda>column. map_of kwargs column = None) pk = Some missing \<and>
               fst (Object_call w kwargs) = Inl (KeyError missing))) \<and>
         entries (snd (Object_call w kwargs)) = entries w \<and>
         heap (snd (Object_call w kwargs)) = heap w"
proof (cases "map_of kwargs ''cls'' = None")
  case False
  then show ?thesis
    using Object_call_collision [of kwargs w] by simp
next
  case True
  obtain missing where f: "find (\<lambda>column. map_of kwargs column = None) pk = Some missing"
    using assms(2,3) by (cases "find (\<lambda>column. map_of kwargs column = None) pk")
      (auto simp: find_None_iff)
  then have "cache_key pk kwargs = Inl (KeyError missing)"
    by (simp add: cache_key_find)
  then have "Object_call w kwargs =
               (Inl (KeyError missing), w\<lparr>instance_map := Some (entries w)\<rparr>)"
    using assms(1) True by (simp add: Object_call_def Object_new_KeyError)
  then show ?thesis using f True by simp
qed

theorem missing_key_raises_witness:
  "primary_key Options = Some [''name''] \<and>
   map_of [(''value'', VStr ''one'')] ''name'' = None \<and>
   fst (Object_call Options [(''value'', VStr ''one'')]) = Inl (KeyError ''name'') \<and>
   entries (snd (Object_call Options [(''value'', VStr ''one'')])) = [] \<and>
   heap (snd (Object_call Options [(''value'', VStr ''one'')])) = [] \<and>
   (\<exists>msg. Object_call Options [(''cls'', VInt 1)] = (Inl (TypeError msg), Options))"
proof -
  have p: "primary_key Options = Some [''name'']"
    by (simp add: Options_def)
  have c: "''name'' \<in> set [''name'']"
    by simp
  have m: "map_of [(''value'', VStr ''one'')] ''name'' = None"
    and m': "map_of [(''cls'', VInt 1)] ''name'' = None"
    by simp_all
  have e: "entries Options = []" "heap Options = []"
    by (simp_all add: Options_def entries_def)
  have n: "map_of [(''value'', VStr ''one'')] ''cls'' = None"
    and n': "map_of [(''cls'', VInt 1)] ''cls'' \<noteq> None"
    by simp_all
  show ?thesis
    using missing_key_raises [OF p c m] missing_key_raises [OF p c m'] p m e n n'
    by auto
qed

text \<open>
  C1, as the claim states it, fails. \<^verbatim>\<open>Options(name='first', value='one')\<close> creates
  the instance at address 0. \<^verbatim>\<open>Options(name='first', value='two')\<close> then returns the
  same instance, and \<^verbatim>\<open>__init__\<close> has stored the new attributes in it: its
  \<^verbatim>\<open>value\<close> is \<^verbatim>\<open>'two'\<close>, not the cached \<^verbatim>\<open>'one'\<close>.
\<close>

theorem construct_cached_counterexample:
  "Object_call Options first_one = (Inr 0, Options_first) \<and>
   heap Options_first ! 0 = first_one \<and>
   map_of first_one ''value'' = Some (VStr ''one'') \<and>
   fst (Object_call Options_first first_two) = Inr 0 \<and>
   heap (snd (Object_call Options_first first_two)) ! 0 = first_two \<and>
   map_of first_two ''value'' = Some (VStr ''two'') \<and>
   heap (snd (Object_call Options_first first_two)) ! 0 \<noteq> heap Options_first ! 0"
  by (simp add: object_defs)

text \<open>
  C1, amended. For a model type with a primary key, a construction whose key tuple is
  already in the map creates no instance and leaves the map as it is. When no
  attribute is named \<^verbatim>\<open>cls\<close> or \<^verbatim>\<open>self\<close>, it returns the instance the map holds
  and has merged the new attributes into that instance, exactly as \<^verbatim>\<open>Object.update\<close>
  does: a name given in the construction has the value given there, every other name
  keeps its value, and every other instance is unchanged. When an attribute is named
  \<^verbatim>\<open>cls\<close> or \<^verbatim>\<open>self\<close>, the construction raises \<^verbatim>\<open>TypeError\<close> and changes nothing.
\<close>

theorem construct_cached_merges:
  assumes "wf_world w" and "primary_key w = Some pk" and "cache_key pk kwargs = Inr ck"
    and "hash_tuple ck = Inr hk" and "map_of (entries w) hk = Some obj"
  shows "(map_of kwargs ''cls'' \<noteq> None \<or> map_of kwargs ''self'' \<noteq> None \<longrightarrow>
            (\<exists>msg. Object_call w kwargs = (Inl (TypeError msg), w))) \<and>
         (map_of kwargs ''cls'' = None \<and> map_of kwargs ''self'' = None \<longrightarrow>
            Object_call w kwargs = (Inr obj, snd (Object_update w obj kwargs)) \<and>
            fst (Object_update w obj kwargs) = Inr () \<and>
            entries (snd (Object_call w kwargs)) = entries w \<and>
            length (heap (snd (Object_call w kwargs))) = length (heap w) \<and>
            (\<forall>n. map_of (heap (snd (Object_call w kwargs)) ! obj) n =
                   (case map_of (rev kwargs) n of
                      None \<Rightarrow> map_of (heap w ! obj) n
                    | Some v \<Rightarrow> Some v)) \<and>
            (\<forall>other. other \<noteq> obj \<longrightarrow>
                   heap (snd (Object_call w kwargs)) ! other = heap w ! other))"
proof (intro conjI impI)
  assume "map_of kwargs ''cls'' \<noteq> None \<or> map_of kwargs ''self'' \<noteq> None"
  then show "\<exists>msg. Object_call w kwargs = (Inl (TypeError msg), w)"
    using Object_call_collision [of kwargs w]
      Object_call_cached_collision [OF _ _ assms(2-5)]
    by (cases "map_of kwargs ''cls'' = None") auto
next
  assume a: "map_of kwargs ''cls'' = None \<and> map_of kwargs ''self'' = None"
  have c: "Object_call w kwargs = (Inr obj, snd (Object_update w obj kwargs))"
    using a assms(2-5) by (simp add: Object_call_cached)
  have "(hk, obj) \<in> set (entries w)"
    using assms(5) by (rule map_of_SomeD)
  then have l: "obj < length (heap w)"
    using assms(1) by (auto simp: wf_world_def list_all_iff)
  have u: "Object_update w obj kwargs =
             (Inr (), w\<lparr>heap := (heap w)[obj := dict_update (heap w ! obj) kwargs]\<rparr>)"
    using a by (simp add: Object_update_eq)
  show "Object_call w kwargs = (Inr obj, snd (Object_update w obj kwargs))"
    by (rule c)
  show "fst (Object_update w obj kwargs) = Inr ()"
    by (simp add: u)
  show "entries (snd (Object_call w kwargs)) = entries w"
    by (simp add: c)
  show "length (heap (snd (Object_call w kwargs))) = length (heap w)"
    by (simp add: c)
  show "\<forall>n. map_of (heap (snd (Object_call w kwargs)) ! obj) n =
                   (case map_of (rev kwargs) n of
                      None \<Rightarrow> map_of (heap w ! obj) n
                    | Some v \<Rightarrow> Some v)"
    using l by (simp add: c u map_of_dict_update_lookup)
  show "\<forall>other. other \<noteq> obj \<longrightarrow>
                   heap (snd (Object_call w kwargs)) ! other = heap w ! other"
    by (simp add: c u)
qed

theorem construct_cached_merges_witness:
  "wf_world Options_first \<and>
   primary_key Options_first = Some [''name''] \<and>
   cache_key [''name''] first_two = Inr [VStr ''first''] \<and>
   hash_tuple [VStr ''first''] = Inr [KStr ''first''] \<and>
   map_of (entries Options_first) [KStr ''first''] = Some 0 \<and>
   fst (Object_call Options_first first_two) = Inr 0 \<and>
   snd (Object_call Options_first first_two) = snd (Object_update Options_first 0 first_two) \<and>
   map_of (heap (snd (Object_call Options_first first_two)) ! 0) ''value'' =
     Some (VStr ''two'') \<and>
   map_of (heap (snd (Object_call Options_first first_two)) ! 0) ''name'' =
     Some (VStr ''first'')"
proof -
  have h: "wf_world Options_first" "primary_key Options_first = Some [''name'']"
    "cache_key [''name''] first_two = Inr [VStr ''first'']"
    "hash_tuple [VStr ''first''] = Inr [KStr ''first'']"
    "map_of (entries Options_first) [KStr ''first''] = Some 0"
    by (simp_all add: object_defs)
  have k: "map_of first_two ''cls'' = None \<and> map_of first_two ''self'' = None"
    by (simp add: first_two_def)
  have r: "map_of (rev first_two) ''value'' = Some (VStr ''two'')"
    "map_of (rev first_two) ''name'' = Some (VStr ''first'')"
    by (simp_all add: first_two_def)
  note t = construct_cached_merges [OF h]
  have c: "Object_call Options_first first_two =
             (Inr 0, snd (Object_update Options_first 0 first_two))"
    using t k by blast
  have d: "map_of (heap (snd (Object_call Options_first first_two)) ! 0) n =
             (case map_of (rev first_two) n of
                None \<Rightarrow> map_of (heap Options_first ! 0) n
              | Some v \<Rightarrow> Some v)" for n
    using t k by blast
  have a: "fst (Object_call Options_first first_two) = Inr 0"
    and b: "snd (Object_call Options_first first_two) =
              snd (Object_update Options_first 0 first_two)"
    by (simp_all add: c)
  have "map_of (heap (snd (Object_call Options_first first_two)) ! 0) ''value'' =
          Some (VStr ''two'')"
    and "map_of (heap (snd (Object_call Options_first first_two)) ! 0) ''name'' =
          Some (VStr ''first'')"
    using d [of "''value''"] d [of "''name''"] r by simp_all
  then show ?thesis
    using h a b by blast
qed

text \<open>
  C2, as the claim states it, fails where the key value cannot be hashed. The
  attribute set \<^verbatim>\<open>{'name': []}\<close> has a complete projection onto the key of
  \<^verbatim>\<open>Options\<close>, equal to itself, and \<^verbatim>\<open>Options(name=[])\<close> yields no instance: the
  lookup in the map raises \<^verbatim>\<open>TypeError\<close>.
\<close>

theorem equal_keys_counterexample:
  "primary_key Options = Some [''name''] \<and>
   cache_key [''name''] [(''name'', VList [])] = Inr [VList []] \<and>
   fst (Object_call Options [(''name'', VList [])]) =
     Inl (TypeError (''unhashable type: '' @ [CHR 0x27] @ ''list'' @ [CHR 0x27]))"
  by (simp add: object_defs str_repr_def repr_char_def quote_def dquote_def backslash_def)

text \<open>
  C2, amended. For a model type with a primary key and two attribute sets, neither with
  an attribute named \<^verbatim>\<open>cls\<close> or \<^verbatim>\<open>self\<close>, whose projections onto the key are
  complete, hashable and equal as dictionary keys (under \<^verbatim>\<open>==\<close>, so \<^verbatim>\<open>True\<close> and
  \<^verbatim>\<open>1\<close> are one key): constructing with the first, and constructing with the second
  after any further constructions and updates, returned or raised, both succeed and
  return the same address, whatever the other attributes are.
\<close>

theorem equal_keys_same_instance:
  assumes "primary_key w = Some pk"
    and "map_of a ''cls'' = None" and "map_of a ''self'' = None"
    and "map_of b ''cls'' = None" and "map_of b ''self'' = None"
    and "cache_key pk a = Inr ka" and "cache_key pk b = Inr kb"
    and "hash_tuple ka = Inr hk" and "hash_tuple kb = Inr hk"
  shows "\<exists>obj. fst (Object_call w a) = Inr obj \<and>
               fst (Object_call (run (snd (Object_call w a)) ops) b) = Inr obj"
proof -
  obtain obj where 1: "fst (Object_call w a) = Inr obj"
    and 2: "map_of (entries (snd (Object_call w a))) hk = Some obj"
    using Object_call_registers [OF assms(2,3,1,6,8)] by blast
  let ?w = "run (snd (Object_call w a)) ops"
  have "map_of (entries ?w) hk = Some obj"
    using 2 by (rule entries_run_mono)
  moreover have "primary_key ?w = Some pk"
    using assms(1) by simp
  ultimately have "Object_call ?w b = (Inr obj, snd (Object_update ?w obj b))"
    using assms(4,5,7,9) by (simp add: Object_call_cached)
  then show ?thesis using 1 by simp
qed

theorem equal_keys_same_instance_witness:
  "primary_key Options = Some [''name''] \<and>
   cache_key [''name''] first_one = Inr [VStr ''first''] \<and>
   cache_key [''name''] first_two = Inr [VStr ''first''] \<and>
   hash_tuple [VStr ''first''] = Inr [KStr ''first''] \<and>
   fst (Object_call Options first_one) = Inr 0 \<and>
   fst (Object_call
          (run (snd (Object_call Options first_one))
             [Construct [(''name'', VStr ''second''), (''value'', VStr ''two'')],
              Construct [(''name'', VStr ''third''), (''self'', VInt 1)],
              Update 0 [(''value'', VStr ''The One'')]])
          first_two) = Inr 0"
proof -
  have h: "primary_key Options = Some [''name'']"
    "cache_key [''name''] first_one = Inr [VStr ''first'']"
    "cache_key [''name''] first_two = Inr [VStr ''first'']"
    "hash_tuple [VStr ''first''] = Inr [KStr ''first'']"
    by (simp_all add: object_defs)
  have k: "map_of first_one ''cls'' = None" "map_of first_one ''self'' = None"
    "map_of first_two ''cls'' = None" "map_of first_two ''self'' = None"
    by (simp_all add: first_one_def first_two_def)
  have f: "fst (Object_call Options first_one) = Inr 0"
    by (simp add: object_defs)
  show ?thesis
    using equal_keys_same_instance [OF h(1) k h(2) h(3) h(4) h(4)] h f by auto
qed

section \<open>Options: what its update does to the world\<close>

lemmas options_defs = Options_update_def update_template_def Query_init_def get_one_def
  get_cursor_for_query_def get_connection_def fetchone_def populate_rows_with_names_def
  get_column_names_from_cursor_def

text \<open>
  \<^verbatim>\<open>Options.update\<close> returns only when \<^verbatim>\<open>Object.update\<close> has merged the row that came
  back from the gateway; when it raises, the world is as it was.
\<close>

lemma Options_update_cases:
  assumes "Options_update drv db w self value = (res, db', w')"
  shows "case res of
           Inl e \<Rightarrow> w' = w
         | Inr u \<Rightarrow>
             (\<exists>name query option_info.
                map_of (heap w ! self) ''name'' = Some name \<and>
                Query_init update_template [] [(''name'', name), (''value'', value)] =
                  Inr query \<and>
                get_one drv db query = (Inr (Some option_info), db') \<and>
                Object_update w self option_info = (Inr (), w'))"
  using assms
  by (auto simp: Options_update_def Object_update_eq
      split: option.splits sum.splits prod.splits if_splits)

text \<open>So a program that calls \<^verbatim>\<open>Options.update\<close> is a program of the operations above.\<close>

lemma Options_update_run:
  "\<exists>ops. snd (snd (Options_update drv db w self value)) = run w ops"
proof (cases "Options_update drv db w self value")
  case (fields res db' w')
  show ?thesis
  proof (cases res)
    case (Inl e)
    then have "w' = w"
      using Options_update_cases [OF fields] by simp
    then have "snd (snd (Options_update drv db w self value)) = run w []"
      using fields by (simp add: run_def)
    then show ?thesis ..
  next
    case (Inr u)
    then obtain option_info where "Object_update w self option_info = (Inr (), w')"
      using Options_update_cases [OF fields] by auto
    then have "snd (snd (Options_update drv db w self value)) =
                 run w [Update self option_info]"
      using fields by (simp add: run_def)
    then show ?thesis ..
  qed
qed

text \<open>
  C8, as the claim states it, fails. \<^verbatim>\<open>Options\<close> overrides \<^verbatim>\<open>update\<close>: on the
  instance created by \<^verbatim>\<open>Options(name='first', value='one')\<close>, with a gateway that was
  never initialised, \<^verbatim>\<open>update(value='v2')\<close> raises
  \<^verbatim>\<open>RuntimeError('No database connection')\<close> and the instance keeps the value
  \<^verbatim>\<open>'one'\<close>. And \<^verbatim>\<open>Object.update\<close> itself raises \<^verbatim>\<open>TypeError\<close> and merges nothing
  when an attribute is named \<^verbatim>\<open>self\<close>.
\<close>

theorem update_counterexample:
  "Object_call Options first_one = (Inr 0, Options_first) \<and>
   Options_update stub_driver new_Database Options_first 0 (VStr ''v2'') =
     (Inl (RuntimeError ''No database connection''), new_Database, Options_first) \<and>
   map_of (heap Options_first ! 0) ''value'' = Some (VStr ''one'') \<and>
   Object_update Options_first 0 [(''self'', VInt 1)] =
     (Inl (TypeError (''Object.update() got multiple values for argument '' @
                      [CHR 0x27] @ ''self'' @ [CHR 0x27])), Options_first)"
  by (simp add: object_defs options_defs new_Database_def str_repr_def repr_char_def
      quote_def dquote_def backslash_def)

text \<open>
  C8, amended. \<^verbatim>\<open>Object.update\<close> on an instance, with no attribute named \<^verbatim>\<open>self\<close>,
  merges the attributes into the instance where it stands: a name given has the value
  given, every other name keeps its value. No instance is created or moved and every
  other instance is unchanged, so the instance keeps its address and whoever holds the
  address reads the new values. The map and the primary key of the type are unchanged:
  a key that led to the instance still does, and a construction under that key returns
  the instance. With an attribute named \<^verbatim>\<open>self\<close>, \<^verbatim>\<open>Object.update\<close> raises
  \<^verbatim>\<open>TypeError\<close> and changes nothing. \<^verbatim>\<open>Options\<close> overrides \<^verbatim>\<open>update(value)\<close>: when
  it raises it has changed no instance and no map, and when it returns it has merged,
  by \<^verbatim>\<open>Object.update\<close> in this way, the row that its \<^verbatim>\<open>UPDATE ... RETURNING *\<close>
  statement gave for the instance's \<^verbatim>\<open>name\<close> and the value.
\<close>

theorem update_merges_in_place:
  assumes "self < length (heap w)"
  shows "(map_of kwargs ''self'' \<noteq> None \<longrightarrow>
            (\<exists>msg. Object_update w self kwargs = (Inl (TypeError msg), w))) \<and>
         (map_of kwargs ''self'' = None \<longrightarrow>
            fst (Object_update w self kwargs) = Inr () \<and>
            (\<forall>n. map_of (heap (snd (Object_update w self kwargs)) ! self) n =
                   (case map_of (rev kwargs) n of
                      None \<Rightarrow> map_of (heap w ! self) n
                    | Some v \<Rightarrow> Some v)) \<and>
            length (heap (snd (Object_update w self kwargs))) = length (heap w) \<and>
            (\<forall>obj. obj \<noteq> self \<longrightarrow>
                   heap (snd (Object_update w self kwargs)) ! obj = heap w ! obj) \<and>
            instance_map (snd (Object_update w self kwargs)) = instance_map w \<and>
            primary_key (snd (Object_update w self kwargs)) = primary_key w \<and>
            (\<forall>pk a ck hk.
               primary_key w = Some pk \<and> map_of a ''cls'' = None \<and> map_of a ''self'' = None \<and>
               cache_key pk a = Inr ck \<and> hash_tuple ck = Inr hk \<and>
               map_of (entries w) hk = Some self \<longrightarrow>
               fst (Object_call (snd (Object_update w self kwargs)) a) = Inr self)) \<and>
         (\<forall>drv db value res db' w'.
            Options_update drv db w self value = (res, db', w') \<longrightarrow>
            (case res of
               Inl e \<Rightarrow> w' = w
             | Inr u \<Rightarrow>
                 (\<exists>name query option_info.
                    map_of (heap w ! self) ''name'' = Some name \<and>
                    Query_init update_template [] [(''name'', name), (''value'', value)] =
                      Inr query \<and>
                    get_one drv db query = (Inr (Some option_info), db') \<and>
                    Object_update w self option_info = (Inr (), w'))))"
proof (intro conjI impI allI)
  assume "map_of kwargs ''self'' \<noteq> None"
  then show "\<exists>msg. Object_update w self kwargs = (Inl (TypeError msg), w)"
    by (auto simp: Object_update_eq)
next
  assume a: "map_of kwargs ''self'' = None"
  have u: "Object_update w self kwargs =
             (Inr (), w\<lparr>heap := (heap w)[self := dict_update (heap w ! self) kwargs]\<rparr>)"
    using a by (simp add: Object_update_eq)
  show "fst (Object_update w self kwargs) = Inr ()"
    by (simp add: u)
  show "length (heap (snd (Object_update w self kwargs))) = length (heap w)"
    by simp
  show "instance_map (snd (Object_update w self kwargs)) = instance_map w"
    by simp
  show "primary_key (snd (Object_update w self kwargs)) = primary_key w"
    by simp
  {
    fix n
    show "map_of (heap (snd (Object_update w self kwargs)) ! self) n =
            (case map_of (rev kwargs) n of
               None \<Rightarrow> map_of (heap w ! self) n
             | Some v \<Rightarrow> Some v)"
      using assms by (simp add: u map_of_dict_update_lookup)
  next
    fix obj
    assume "obj \<noteq> self"
    then show "heap (snd (Object_update w self kwargs)) ! obj = heap w ! obj"
      by (simp add: u)
  next
    fix pk a ck hk
    assume "primary_key w = Some pk \<and> map_of a ''cls'' = None \<and> map_of a ''self'' = None \<and>
            cache_key pk a = Inr ck \<and> hash_tuple ck = Inr hk \<and>
            map_of (entries w) hk = Some self"
    then show "fst (Object_call (snd (Object_update w self kwargs)) a) = Inr self"
      by (simp add: Object_call_cached [where w = "snd (Object_update w self kwargs)"])
  }
next
  fix drv :: "'c driver" and db :: "'c Database" and val res db' w'
  assume "Options_update drv db w self val = (res, db', w')"
  then show "case res of
               Inl e \<Rightarrow> w' = w
             | Inr u \<Rightarrow>
                 (\<exists>name query option_info.
                    map_of (heap w ! self) ''name'' = Some name \<and>
                    Query_init update_template [] [(''name'', name), (''value'', val)] =
                      Inr query \<and>
                    get_one drv db query = (Inr (Some option_info), db') \<and>
                    Object_update w self option_info = (Inr (), w'))"
    by (rule Options_update_cases)
qed

theorem update_merges_in_place_witness:
  "0 < length (heap Options_first) \<and>
   map_of (heap Options_first ! 0) ''value'' = Some (VStr ''one'') \<and>
   fst (Object_update Options_first 0 [(''value'', VStr ''The One'')]) = Inr () \<and>
   map_of (heap (snd (Object_update Options_first 0 [(''value'', VStr ''The One'')])) ! 0)
     ''value'' = Some (VStr ''The One'') \<and>
   map_of (heap (snd (Object_update Options_first 0 [(''value'', VStr ''The One'')])) ! 0)
     ''name'' = Some (VStr ''first'') \<and>
   instance_map (snd (Object_update Options_first 0 [(''value'', VStr ''The One'')])) =
     instance_map Options_first \<and>
   fst (Object_call (snd (Object_update Options_first 0 [(''value'', VStr ''The One'')]))
          first_one) = Inr 0 \<and>
   (\<exists>msg. Object_update Options_first 0 [(''self'', VInt 1)] =
      (Inl (TypeError msg), Options_first)) \<and>
   Options_update returning_driver connected Options_first 0 (VStr ''The One'') =
     (Inr (), connected\<lparr>connection := Some 1\<rparr>,
      snd (Object_update Options_first 0
             [(''name'', VStr ''first''), (''value'', VStr ''The One'')])) \<and>
   map_of (heap (snd (Object_update Options_first 0
             [(''name'', VStr ''first''), (''value'', VStr ''The One'')])) ! 0) ''value'' =
     Some (VStr ''The One'')"
proof -
  let ?kw = "[(''value'', VStr ''The One'')]"
  let ?row = "[(''name'', VStr ''first''), (''value'', VStr ''The One'')]"
  have l: "0 < length (heap Options_first)"
    by (simp add: object_defs)
  have h: "primary_key Options_first = Some [''name''] \<and> map_of first_one ''cls'' = None \<and>
    map_of first_one ''self'' = None \<and>
    cache_key [''name''] first_one = Inr [VStr ''first''] \<and>
    hash_tuple [VStr ''first''] = Inr [KStr ''first''] \<and>
    map_of (entries Options_first) [KStr ''first''] = Some 0"
    by (simp add: object_defs)
  have v: "map_of (heap Options_first ! 0) ''value'' = Some (VStr ''one'')"
    "map_of (heap Options_first ! 0) ''name'' = Some (VStr ''first'')"
    by (simp_all add: object_defs)
  have s: "map_of ?kw ''self'' = None" "map_of ?row ''self'' = None"
    "map_of [(''self'', VInt 1)] ''self'' \<noteq> None"
    by simp_all
  note t = update_merges_in_place [OF l, of ?kw]
  note t' = update_merges_in_place [OF l, of "[(''self'', VInt 1)]"]
  note t'' = update_merges_in_place [OF l, of ?row]
  have 1: "fst (Object_update Options_first 0 ?kw) = Inr ()"
    and 2: "instance_map (snd (Object_update Options_first 0 ?kw)) =
              instance_map Options_first"
    using t s(1) by blast+
  have d: "map_of (heap (snd (Object_update Options_first 0 ?kw)) ! 0) n =
             (case map_of (rev ?kw) n of
                None \<Rightarrow> map_of (heap Options_first ! 0) n
              | Some v \<Rightarrow> Some v)" for n
    using t s(1) by blast
  have 3: "map_of (heap (snd (Object_update Options_first 0 ?kw)) ! 0) ''value'' =
             Some (VStr ''The One'')"
    and 4: "map_of (heap (snd (Object_update Options_first 0 ?kw)) ! 0) ''name'' =
             Some (VStr ''first'')"
    using d [of "''value''"] d [of "''name''"] v by simp_all
  have 5: "fst (Object_call (snd (Object_update Options_first 0 ?kw)) first_one) = Inr 0"
    using t s(1) h by blast
  have 6: "\<exists>msg. Object_update Options_first 0 [(''self'', VInt 1)] =
             (Inl (TypeError msg), Options_first)"
    using t' s(3) by blast
  have 7: "Options_update returning_driver connected Options_first 0 (VStr ''The One'') =
             (Inr (), connected\<lparr>connection := Some 1\<rparr>,
              snd (Object_update Options_first 0 ?row))"
    by (simp add: object_defs options_defs returning_driver_def connected_def)
  have d': "map_of (heap (snd (Object_update Options_first 0 ?row)) ! 0) n =
             (case map_of (rev ?row) n of
                None \<Rightarrow> map_of (heap Options_first ! 0) n
              | Some v \<Rightarrow> Some v)" for n
    using t'' s(2) by blast
  have 8: "map_of (heap (snd (Object_update Options_first 0 ?row)) ! 0) ''value'' =
             Some (VStr ''The One'')"
    using d' [of "''value''"] by simp
  show ?thesis
    using l v(1) 1 2 3 4 5 6 7 8 by blast
qed

end
